theory Spec2Isabelle
  imports Main
begin

section \<open>AssumeRoleConnection.py: the AWS connection handler and its S3 listing\<close>

text \<open>
  The module talks to two remote services through boto3 (STS \<open>assume_role\<close> and S3
  \<open>list_objects_v2\<close>) and reads the wall clock. None of the three is computed by the
  module, so each is a parameter of the model: an \<open>aws\<close> record holds, for every history
  of API calls made so far, what the clock reads and what the service answers to the call
  that ends the history. Every function of the module takes the history and returns it
  extended by the calls it made, next to its result; an exception is the \<open>Inl\<close> of a sum.
  Responses have the shape boto3 documents for them, so the subscripts that only feed log
  lines (\<open>response['Name']\<close> on line 139) find their key, and the log lines are left out.
\<close>

subsection \<open>Python values\<close>

datatype exn =
    ClientError string
  | NoCredentialsError
  | EndpointConnectionError
  | KeyError string
  | AttributeError string
  | TypeError string

text \<open>Truth value of an \<open>Optional[str]\<close>: \<open>None\<close> and the empty string are false.\<close>

definition truthy :: "string option \<Rightarrow> bool" where
  "truthy s = (case s of None \<Rightarrow> False | Some v \<Rightarrow> v \<noteq> [])"

text \<open>\<open>str\<close> of a Python integer: decimal digits, with a minus sign in front of a negative one.\<close>

definition digit_char :: "nat \<Rightarrow> char" where
  "digit_char d = char_of (48 + d)"

function str_nat :: "nat \<Rightarrow> string" where
  "str_nat n = (if n < 10 then [digit_char n] else str_nat (n div 10) @ [digit_char (n mod 10)])"
  by pat_completeness auto
termination
  by (relation "measure (\<lambda>n. n)") auto

declare str_nat.simps [simp del]

definition str_int :: "int \<Rightarrow> string" where
  "str_int i = (if i < 0 then CHR ''-'' # str_nat (nat (- i)) else str_nat (nat i))"

text \<open>Reading a decimal numeral back; used to show that \<open>str_nat\<close> loses nothing.\<close>

definition digit_val :: "char \<Rightarrow> nat" where
  "digit_val c = of_char c - 48"

definition nat_of_digits :: "string \<Rightarrow> nat" where
  "nat_of_digits s = foldl (\<lambda>a c. 10 * a + digit_val c) 0 s"

text \<open>
  \<open>datetime.now().timestamp()\<close> is a float of seconds with microsecond resolution; the
  model keeps the reading as a whole number of microseconds. \<open>int(...)\<close> of a float drops
  the fraction, towards zero.
\<close>

definition int_of_timestamp :: "int \<Rightarrow> int" where
  "int_of_timestamp us = (if 0 \<le> us then us div 1000000 else - ((- us) div 1000000))"

subsection \<open>boto3 sessions, clients and the calls made through them\<close>

record Session =
  aws_access_key_id :: "string option"
  aws_secret_access_key :: "string option"
  aws_session_token :: "string option"
  session_region_name :: string

record Client =
  service_name :: string
  client_session :: Session

text \<open>\<open>session.client(name)\<close>.\<close>

definition client :: "Session \<Rightarrow> string \<Rightarrow> Client" where
  "client session name = \<lparr>service_name = name, client_session = session\<rparr>"

text \<open>
  A call as the service sees it: the client it came through and its keyword arguments.
  \<open>Prefix\<close> is \<open>None\<close> when the argument is not passed.
\<close>

datatype api_call =
    AssumeRole Client "string option" string
  | ListObjectsV2 Client string "string option"

record credentials =
  AccessKeyId :: string
  SecretAccessKey :: string
  SessionToken :: string

record assume_role_response =
  Credentials :: credentials

text \<open>
  A Python \<open>datetime\<close>, and equally a pandas timestamp: the instant it denotes, in
  microseconds since the epoch, and the name of its time zone, \<open>None\<close> for a naive value
  (whose instant is then its wall clock read as UTC, which is how
  \<open>pd.to_datetime(..., utc=True)\<close> reads it).
\<close>

record datetime =
  instant_us :: int
  tzinfo :: "string option"

record s3_object =
  Key :: string
  LastModified :: datetime
  ETag :: string
  Size :: int
  StorageClass :: string

text \<open>The response dictionary of \<open>list_objects_v2\<close>; S3 leaves \<open>Contents\<close> out when nothing matches.\<close>

record list_objects_response =
  Name :: string
  Contents :: "s3_object list option"

record aws =
  now_timestamp_us :: "api_call list \<Rightarrow> int"
  sts_answer :: "api_call list \<Rightarrow> exn + assume_role_response"
  s3_answer :: "api_call list \<Rightarrow> exn + list_objects_response"

subsection \<open>pandas\<close>

record DataFrame =
  columns :: "string list"
  rows :: "s3_object list"

text \<open>\<open>pd.DataFrame(records)\<close>: the columns are the keys of the records, none for an empty list.\<close>

definition pd_DataFrame :: "s3_object list \<Rightarrow> DataFrame" where
  "pd_DataFrame recs =
     \<lparr>columns = (if recs = [] then []
                 else [''Key'', ''LastModified'', ''ETag'', ''Size'', ''StorageClass'']),
      rows = recs\<rparr>"

text \<open>\<open>df[name]\<close> raises \<open>KeyError\<close> for a column the frame does not have.\<close>

definition getitem :: "DataFrame \<Rightarrow> string \<Rightarrow> (s3_object \<Rightarrow> 'a) \<Rightarrow> exn + 'a list" where
  "getitem df name field =
     (if name \<in> set (columns df) then Inr (map field (rows df)) else Inl (KeyError name))"

text \<open>\<open>series.astype(str)\<close> on a column of strings.\<close>

definition astype_str :: "string list \<Rightarrow> string list" where
  "astype_str ks = ks"

text \<open>
  \<open>pd.to_datetime(series, utc=True)\<close>: a naive value is localized as UTC, an aware one is
  converted to UTC; the instant stays. pandas keeps instants at least to the microsecond;
  years outside what its nanosecond clock holds (1678 to 2261) are not modelled.
\<close>

definition to_datetime_utc :: "datetime list \<Rightarrow> datetime list" where
  "to_datetime_utc ds = map (\<lambda>d. d\<lparr>tzinfo := Some ''UTC''\<rparr>) ds"

text \<open>
  \<open>series.dt.tz_convert(zone)\<close>: the same instants in another zone; \<open>TypeError\<close> on naive
  values.
\<close>

definition tz_convert :: "string \<Rightarrow> datetime list \<Rightarrow> exn + datetime list" where
  "tz_convert zone ds =
     (if list_ex (\<lambda>d. tzinfo d = None) ds
      then Inl (TypeError ''Cannot convert tz-naive timestamps, use tz_localize to localize'')
      else Inr (map (\<lambda>d. d\<lparr>tzinfo := Some zone\<rparr>) ds))"

text \<open>\<open>df["Key"] = values\<close> and \<open>df["LastModified"] = values\<close>, for as many values as rows.\<close>

definition set_Key :: "DataFrame \<Rightarrow> string list \<Rightarrow> DataFrame" where
  "set_Key df ks = df\<lparr>rows := map (\<lambda>(r, k). r\<lparr>Key := k\<rparr>) (zip (rows df) ks)\<rparr>"

definition set_LastModified :: "DataFrame \<Rightarrow> datetime list \<Rightarrow> DataFrame" where
  "set_LastModified df ds =
     df\<lparr>rows := map (\<lambda>(r, d). r\<lparr>LastModified := d\<rparr>) (zip (rows df) ds)\<rparr>"

subsection \<open>The module\<close>

definition SOURCE_BUCKET :: string where
  "SOURCE_BUCKET = ''inversolarmx''"

definition SOURCE_FOLDER :: string where
  "SOURCE_FOLDER = ''pricelists''"

record AwsConnection =
  region_name :: string
  assume_role_arn :: "string option"
  s3_client :: "Client option"

text \<open>Lines 72-81: the first session, from the given keys or from boto3's default chain.\<close>

definition initial_session :: "string option \<Rightarrow> string option \<Rightarrow> string \<Rightarrow> Session" where
  "initial_session key_id secret region =
     (if truthy key_id \<and> truthy secret
      then \<lparr>aws_access_key_id = key_id, aws_secret_access_key = secret,
            aws_session_token = None, session_region_name = region\<rparr>
      else \<lparr>aws_access_key_id = None, aws_secret_access_key = None,
            aws_session_token = None, session_region_name = region\<rparr>)"

text \<open>Lines 89-94: the session built from the credentials of the assumed role.\<close>

definition assumed_session :: "credentials \<Rightarrow> string \<Rightarrow> Session" where
  "assumed_session c region =
     \<lparr>aws_access_key_id = Some (AccessKeyId c), aws_secret_access_key = Some (SecretAccessKey c),
      aws_session_token = Some (SessionToken c), session_region_name = region\<rparr>"

text \<open>Line 122: the f-string, evaluated at the clock reading of the moment.\<close>

definition RoleSessionName :: "aws \<Rightarrow> api_call list \<Rightarrow> string" where
  "RoleSessionName w h = ''S3ExcelProcessor-'' @ str_int (int_of_timestamp (now_timestamp_us w h))"

text \<open>\<open>_assume_role\<close>: one STS call; its \<open>except\<close> logs and raises the same exception again.\<close>

definition assume_role ::
  "aws \<Rightarrow> AwsConnection \<Rightarrow> Session \<Rightarrow> api_call list \<Rightarrow> (exn + credentials) \<times> api_call list" where
  "assume_role w self session h =
     (let sts_client = client session ''sts'';
          h1 = h @ [AssumeRole sts_client (assume_role_arn self) (RoleSessionName w h)]
      in case sts_answer w h1 of
           Inl e \<Rightarrow> (Inl e, h1)
         | Inr response \<Rightarrow> (Inr (Credentials response), h1))"

text \<open>\<open>_test_connection\<close>: one listing of the source bucket, no prefix; raises what the call raises.\<close>

definition test_connection ::
  "aws \<Rightarrow> AwsConnection \<Rightarrow> api_call list \<Rightarrow> (exn + unit) \<times> api_call list" where
  "test_connection w self h =
     (case s3_client self of
        None \<Rightarrow> (Inl (AttributeError ''list_objects_v2''), h)
      | Some c \<Rightarrow>
          (let h1 = h @ [ListObjectsV2 c SOURCE_BUCKET None]
           in case s3_answer w h1 of
                Inl e \<Rightarrow> (Inl e, h1)
              | Inr response \<Rightarrow> (Inr (), h1)))"

text \<open>
  \<open>_initialize_aws_clients\<close>. The object is returned with its client set when nothing
  raised; the \<open>except\<close> of line 103 logs and raises the same exception again.
\<close>

definition initialize_aws_clients ::
  "aws \<Rightarrow> AwsConnection \<Rightarrow> string option \<Rightarrow> string option \<Rightarrow> api_call list
     \<Rightarrow> (exn + AwsConnection) \<times> api_call list" where
  "initialize_aws_clients w self key_id secret h =
     (let session = initial_session key_id secret (region_name self)
      in case (if truthy (assume_role_arn self)
               then (case assume_role w self session h of
                       (Inl e, h1) \<Rightarrow> (Inl e, h1)
                     | (Inr c, h1) \<Rightarrow> (Inr (assumed_session c (region_name self)), h1))
               else (Inr session, h)) of
           (Inl e, h1) \<Rightarrow> (Inl e, h1)
         | (Inr session', h1) \<Rightarrow>
             (let self' = self\<lparr>s3_client := Some (client session' ''s3'')\<rparr>
              in case test_connection w self' h1 of
                   (Inl e, h2) \<Rightarrow> (Inl e, h2)
                 | (Inr u, h2) \<Rightarrow> (Inr self', h2)))"

text \<open>\<open>AwsConnection.__init__\<close>.\<close>

definition AwsConnection_init ::
  "aws \<Rightarrow> string option \<Rightarrow> string option \<Rightarrow> string option \<Rightarrow> string \<Rightarrow> api_call list
     \<Rightarrow> (exn + AwsConnection) \<times> api_call list" where
  "AwsConnection_init w role_arn key_id secret region h =
     initialize_aws_clients w
       \<lparr>region_name = region, assume_role_arn = role_arn, s3_client = None\<rparr> key_id secret h"

text \<open>What \<open>get_files_from_s3_folder\<close> returns: a Python list or a pandas frame.\<close>

datatype listing = PyList "string list" | Frame DataFrame

text \<open>Lines 150-174, the body of the \<open>try\<close>. The prefix of line 150 is computed and not passed on.\<close>

definition get_files_try ::
  "aws \<Rightarrow> AwsConnection \<Rightarrow> api_call list \<Rightarrow> (exn + listing) \<times> api_call list" where
  "get_files_try w self h =
     (let prefix = (if SOURCE_FOLDER \<noteq> [] then SOURCE_FOLDER @ ''/'' else [])
      in case s3_client self of
           None \<Rightarrow> (Inl (AttributeError ''list_objects_v2''), h)
         | Some c \<Rightarrow>
             (let h1 = h @ [ListObjectsV2 c SOURCE_BUCKET None]
              in case s3_answer w h1 of
                   Inl e \<Rightarrow> (Inl e, h1)
                 | Inr response \<Rightarrow>
                     (case Contents response of
                        None \<Rightarrow> (Inr (PyList []), h1)
                      | Some recs \<Rightarrow>
                          (let files_df = pd_DataFrame recs
                           in case getitem files_df ''Key'' Key of
                                Inl e \<Rightarrow> (Inl e, h1)
                              | Inr ks \<Rightarrow>
                                  (let files_df = set_Key files_df (astype_str ks)
                                   in case getitem files_df ''LastModified'' LastModified of
                                        Inl e \<Rightarrow> (Inl e, h1)
                                      | Inr ds \<Rightarrow>
                                          (let files_df = set_LastModified files_df (to_datetime_utc ds)
                                           in case getitem files_df ''LastModified'' LastModified of
                                                Inl e \<Rightarrow> (Inl e, h1)
                                              | Inr ds' \<Rightarrow>
                                                  (case tz_convert ''America/Mexico_City'' ds' of
                                                     Inl e \<Rightarrow> (Inl e, h1)
                                                   | Inr ds'' \<Rightarrow>
                                                       (Inr (Frame (set_LastModified files_df ds'')), h1))))))))"

text \<open>\<open>get_files_from_s3_folder\<close>: the \<open>except\<close> of line 176 turns every exception into \<open>[]\<close>.\<close>

definition get_files_from_s3_folder ::
  "aws \<Rightarrow> AwsConnection \<Rightarrow> api_call list \<Rightarrow> (exn + listing) \<times> api_call list" where
  "get_files_from_s3_folder w self h =
     (case get_files_try w self h of
        (Inl e, h1) \<Rightarrow> (Inr (PyList []), h1)
      | (Inr r, h1) \<Rightarrow> (Inr r, h1))"

text \<open>\<open>os.environ.get(key)\<close> and \<open>os.environ.get(key, default)\<close>.\<close>

definition environ_get :: "(string \<rightharpoonup> string) \<Rightarrow> string \<Rightarrow> string option" where
  "environ_get environ k = environ k"

definition environ_get_default :: "(string \<rightharpoonup> string) \<Rightarrow> string \<Rightarrow> string \<Rightarrow> string" where
  "environ_get_default environ k d = (case environ k of None \<Rightarrow> d | Some v \<Rightarrow> v)"

text \<open>Lines 204-211: an argument that is not given is looked up in the environment.\<close>

definition arg_or_environ :: "(string \<rightharpoonup> string) \<Rightarrow> string \<Rightarrow> string option \<Rightarrow> string option" where
  "arg_or_environ environ k arg = (if \<not> truthy arg then environ_get environ k else arg)"

definition region_or_environ :: "(string \<rightharpoonup> string) \<Rightarrow> string option \<Rightarrow> string" where
  "region_or_environ environ arg =
     (case arg of
        None \<Rightarrow> environ_get_default environ ''AWS_DEFAULT_REGION'' ''us-east-1''
      | Some v \<Rightarrow>
          if v = [] then environ_get_default environ ''AWS_DEFAULT_REGION'' ''us-east-1'' else v)"

text \<open>
  \<open>run_manual_test\<close>: arguments first, the environment for those not given, then the
  connection and the listing, whose result is dropped. Its \<open>except\<close> raises the exception again.
\<close>

definition run_manual_test ::
  "aws \<Rightarrow> (string \<rightharpoonup> string) \<Rightarrow> string option \<Rightarrow> string option \<Rightarrow> string option \<Rightarrow> string option
     \<Rightarrow> api_call list \<Rightarrow> (exn + bool) \<times> api_call list" where
  "run_manual_test w environ key_id secret role_arn region h =
     (let key_id = arg_or_environ environ ''AWS_ACCESS_KEY_ID'' key_id;
          secret = arg_or_environ environ ''AWS_SECRET_ACCESS_KEY'' secret;
          role_arn = arg_or_environ environ ''ASSUME_ROLE_ARN'' role_arn;
          region = region_or_environ environ region
      in case AwsConnection_init w role_arn key_id secret region h of
           (Inl e, h1) \<Rightarrow> (Inl e, h1)
         | (Inr aws_client, h1) \<Rightarrow>
             (case get_files_from_s3_folder w aws_client h1 of
                (Inl e, h2) \<Rightarrow> (Inl e, h2)
              | (Inr r, h2) \<Rightarrow> (Inr True, h2)))"

text \<open>Which recorded calls are listings.\<close>

fun is_listing :: "api_call \<Rightarrow> bool" where
  "is_listing (ListObjectsV2 c b p) = True"
| "is_listing (AssumeRole c r n) = False"

subsection \<open>Example worlds\<close>

text \<open>
  Services to run the module against: one that grants the role and lists one object,
  one whose STS rejects the role, one whose S3 cannot be reached, one whose bucket is
  empty, and one that answers with an empty \<open>Contents\<close> list. The clock of each
  advances by 0.8 seconds with every call, from 1700000000.1 seconds on.
\<close>

definition example_credentials :: credentials where
  "example_credentials =
     \<lparr>AccessKeyId = ''ASIAEXAMPLE'', SecretAccessKey = ''temporary-secret'',
      SessionToken = ''temporary-token''\<rparr>"

definition example_object :: s3_object where
  "example_object =
     \<lparr>Key = ''pricelists/2025-05.xlsx'',
      LastModified = \<lparr>instant_us = 1746057600123456, tzinfo = Some ''UTC''\<rparr>,
      ETag = ''0f343b0931126a20f133d67c2b018a3b'', Size = 48213, StorageClass = ''STANDARD''\<rparr>"

definition granting_aws :: aws where
  "granting_aws =
     \<lparr>now_timestamp_us = (\<lambda>h. 1700000000100000 + 800000 * int (length h)),
      sts_answer = (\<lambda>h. Inr \<lparr>Credentials = example_credentials\<rparr>),
      s3_answer = (\<lambda>h. Inr \<lparr>Name = ''inversolarmx'', Contents = Some [example_object]\<rparr>)\<rparr>"

definition rejecting_aws :: aws where
  "rejecting_aws = granting_aws\<lparr>sts_answer := (\<lambda>h. Inl (ClientError ''AccessDenied''))\<rparr>"

definition unreachable_aws :: aws where
  "unreachable_aws = granting_aws\<lparr>s3_answer := (\<lambda>h. Inl EndpointConnectionError)\<rparr>"

definition empty_bucket_aws :: aws where
  "empty_bucket_aws =
     granting_aws\<lparr>s3_answer := (\<lambda>h. Inr \<lparr>Name = ''inversolarmx'', Contents = None\<rparr>)\<rparr>"

definition no_rows_aws :: aws where
  "no_rows_aws =
     granting_aws\<lparr>s3_answer := (\<lambda>h. Inr \<lparr>Name = ''inversolarmx'', Contents = Some []\<rparr>)\<rparr>"

definition example_role :: string where
  "example_role = ''arn:aws:iam::123:role/X''"

definition example_self :: AwsConnection where
  "example_self =
     \<lparr>region_name = ''us-east-1'', assume_role_arn = Some example_role, s3_client = None\<rparr>"

definition example_keys :: Session where
  "example_keys =
     \<lparr>aws_access_key_id = Some ''AKIAEXAMPLE'', aws_secret_access_key = Some ''long-term-secret'',
      aws_session_token = None, session_region_name = ''us-east-1''\<rparr>"

text \<open>The connection that the first world gives for a pair of long-term keys and no role.\<close>

definition example_client :: Client where
  "example_client =
     client \<lparr>aws_access_key_id = Some ''AKIAEXAMPLE'',
             aws_secret_access_key = Some ''long-term-secret'',
             aws_session_token = None, session_region_name = ''us-east-1''\<rparr> ''s3''"

definition example_connection :: AwsConnection where
  "example_connection =
     \<lparr>region_name = ''us-east-1'', assume_role_arn = None, s3_client = Some example_client\<rparr>"

section \<open>Properties\<close>

subsection \<open>Decimal numerals are read back\<close>

lemma digit_val_digit_char: "d < 10 \<Longrightarrow> digit_val (digit_char d) = d"
  by (simp add: digit_val_def digit_char_def)

lemma nat_of_digits_snoc: "nat_of_digits (s @ [c]) = 10 * nat_of_digits s + digit_val c"
  by (simp add: nat_of_digits_def)

lemma nat_of_digits_str_nat: "nat_of_digits (str_nat n) = n"
proof (induction n rule: str_nat.induct)
  case (1 n)
  show ?case
  proof (cases "n < 10")
    case True
    then show ?thesis
      by (simp add: str_nat.simps [of n] nat_of_digits_def digit_val_digit_char)
  next
    case False
    with "1" have "nat_of_digits (str_nat (n div 10)) = n div 10" by simp
    with False show ?thesis
      by (simp add: str_nat.simps [of n] nat_of_digits_snoc digit_val_digit_char)
  qed
qed

lemma str_nat_inj: "str_nat m = str_nat n \<Longrightarrow> m = n"
  by (metis nat_of_digits_str_nat)

lemma digit_char_not_minus: "d < 10 \<Longrightarrow> digit_char d \<noteq> CHR ''-''"
proof
  assume d: "d < 10" and eq: "digit_char d = CHR ''-''"
  from eq have "(of_char (digit_char d) :: nat) = of_char (CHR ''-'')" by simp
  with d show False by (simp add: digit_char_def)
qed

lemma str_nat_no_minus: "CHR ''-'' \<notin> set (str_nat n)"
proof (induction n rule: str_nat.induct)
  case (1 n)
  show ?case
  proof (cases "n < 10")
    case True
    then show ?thesis
      using digit_char_not_minus [of n] by (simp add: str_nat.simps [of n])
  next
    case False
    with "1" have "CHR ''-'' \<notin> set (str_nat (n div 10))" by simp
    with False show ?thesis
      using digit_char_not_minus [of "n mod 10"] by (simp add: str_nat.simps [of n])
  qed
qed

lemma str_nat_not_negative: "str_nat n \<noteq> CHR ''-'' # s"
  using str_nat_no_minus [of n] by (metis list.set_intros(1))

lemma str_int_eq_iff: "str_int i = str_int j \<longleftrightarrow> i = j"
proof
  assume eq: "str_int i = str_int j"
  show "i = j"
  proof (cases "i < 0"; cases "j < 0")
    assume "i < 0" "j < 0"
    with eq have "nat (- i) = nat (- j)" by (simp add: str_int_def str_nat_inj)
    with \<open>i < 0\<close> \<open>j < 0\<close> show ?thesis by simp
  next
    assume "i < 0" "\<not> j < 0"
    with eq show ?thesis using str_nat_not_negative [of "nat j"] by (simp add: str_int_def) metis
  next
    assume "\<not> i < 0" "j < 0"
    with eq show ?thesis using str_nat_not_negative [of "nat i"] by (simp add: str_int_def)
  next
    assume "\<not> i < 0" "\<not> j < 0"
    with eq have "nat i = nat j" by (simp add: str_int_def str_nat_inj)
    with \<open>\<not> i < 0\<close> \<open>\<not> j < 0\<close> show ?thesis by simp
  qed
qed simp

subsection \<open>What the construction does, case by case\<close>

lemma initialize_without_role:
  assumes "\<not> truthy (assume_role_arn self)"
  shows "initialize_aws_clients w self k s h =
    (let c = client (initial_session k s (region_name self)) ''s3'';
         h1 = h @ [ListObjectsV2 c SOURCE_BUCKET None]
     in case s3_answer w h1 of
          Inl e \<Rightarrow> (Inl e, h1)
        | Inr response \<Rightarrow> (Inr (self\<lparr>s3_client := Some c\<rparr>), h1))"
  using assms
  by (simp add: initialize_aws_clients_def test_connection_def Let_def split: sum.splits)

lemma initialize_with_role:
  assumes "truthy (assume_role_arn self)"
  shows "initialize_aws_clients w self k s h =
    (let base = initial_session k s (region_name self);
         h1 = h @ [AssumeRole (client base ''sts'') (assume_role_arn self) (RoleSessionName w h)]
     in case sts_answer w h1 of
          Inl e \<Rightarrow> (Inl e, h1)
        | Inr r \<Rightarrow>
            (let c = client (assumed_session (Credentials r) (region_name self)) ''s3'';
                 h2 = h1 @ [ListObjectsV2 c SOURCE_BUCKET None]
             in case s3_answer w h2 of
                  Inl e \<Rightarrow> (Inl e, h2)
                | Inr response \<Rightarrow> (Inr (self\<lparr>s3_client := Some c\<rparr>), h2)))"
  using assms
  by (simp add: initialize_aws_clients_def assume_role_def test_connection_def Let_def
      split: sum.splits)

subsection \<open>What the listing does, case by case\<close>

lemma zip_map_same: "map (\<lambda>(r, v). F r v) (zip rs (map g rs)) = map (\<lambda>r. F r (g r)) rs"
  by (induction rs) simp_all

lemma zip_map_map:
  "map (\<lambda>(r, v). F r v) (zip (map f rs) (map g rs)) = map (\<lambda>r. F (f r) (g r)) rs"
  by (induction rs) simp_all

lemma get_files_try_raises:
  assumes "s3_client self = Some c"
    and "s3_answer w (h @ [ListObjectsV2 c SOURCE_BUCKET None]) = Inl e"
  shows "get_files_try w self h = (Inl e, h @ [ListObjectsV2 c SOURCE_BUCKET None])"
  using assms by (simp add: get_files_try_def Let_def)

lemma get_files_try_no_contents:
  assumes "s3_client self = Some c"
    and "s3_answer w (h @ [ListObjectsV2 c SOURCE_BUCKET None]) = Inr response"
    and "Contents response = None"
  shows "get_files_try w self h = (Inr (PyList []), h @ [ListObjectsV2 c SOURCE_BUCKET None])"
  using assms by (simp add: get_files_try_def Let_def)

lemma get_files_try_empty_contents:
  assumes "s3_client self = Some c"
    and "s3_answer w (h @ [ListObjectsV2 c SOURCE_BUCKET None]) = Inr response"
    and "Contents response = Some []"
  shows "get_files_try w self h =
    (Inl (KeyError ''Key''), h @ [ListObjectsV2 c SOURCE_BUCKET None])"
  using assms by (simp add: get_files_try_def Let_def pd_DataFrame_def getitem_def)

lemma get_files_try_contents:
  assumes "s3_client self = Some c"
    and "s3_answer w (h @ [ListObjectsV2 c SOURCE_BUCKET None]) = Inr response"
    and "Contents response = Some recs" and "recs \<noteq> []"
  shows "get_files_try w self h =
    (Inr (Frame \<lparr>columns = [''Key'', ''LastModified'', ''ETag'', ''Size'', ''StorageClass''],
                 rows = map (\<lambda>r. r\<lparr>LastModified :=
                   \<lparr>instant_us = instant_us (LastModified r),
                    tzinfo = Some ''America/Mexico_City''\<rparr>\<rparr>) recs\<rparr>),
     h @ [ListObjectsV2 c SOURCE_BUCKET None])"
  using assms
  by (simp add: get_files_try_def Let_def pd_DataFrame_def getitem_def set_Key_def
      set_LastModified_def astype_str_def to_datetime_utc_def tz_convert_def list_ex_iff
      zip_map_same zip_map_map comp_def)

lemma get_files_try_calls:
  assumes "s3_client self = Some c"
  shows "snd (get_files_try w self h) = h @ [ListObjectsV2 c SOURCE_BUCKET None]"
  using assms
  by (simp add: get_files_try_def Let_def split: sum.splits option.splits)

lemma get_files_calls:
  assumes "s3_client self = Some c"
  shows "snd (get_files_from_s3_folder w self h) = h @ [ListObjectsV2 c SOURCE_BUCKET None]"
proof (cases "get_files_try w self h")
  case (Pair r h1)
  with get_files_try_calls [OF assms, of w h] show ?thesis
    by (cases r) (simp_all add: get_files_from_s3_folder_def)
qed

subsection \<open>A constructed connection has a client\<close>

lemma initialize_sets_client:
  assumes "initialize_aws_clients w self k s h = (Inr self', h')"
  shows "\<exists>c. s3_client self' = Some c"
proof (cases "truthy (assume_role_arn self)")
  case True
  with assms show ?thesis
    by (auto simp: initialize_with_role Let_def split: sum.splits)
next
  case False
  with assms show ?thesis
    by (auto simp: initialize_without_role Let_def split: sum.splits)
qed

lemma example_construction:
  "AwsConnection_init granting_aws None (Some ''AKIAEXAMPLE'') (Some ''long-term-secret'')
     ''us-east-1'' [] =
   (Inr example_connection, [ListObjectsV2 example_client SOURCE_BUCKET None])"
  by (simp add: AwsConnection_init_def initialize_aws_clients_def test_connection_def
      initial_session_def truthy_def granting_aws_def example_connection_def example_client_def
      Let_def)

subsection \<open>The handler of the listing\<close>

lemma get_files_catches:
  assumes "get_files_try w self h = (Inl e, h')"
  shows "get_files_from_s3_folder w self h = (Inr (PyList []), h')"
  using assms by (simp add: get_files_from_s3_folder_def)

lemma get_files_passes:
  assumes "get_files_try w self h = (Inr r, h')"
  shows "get_files_from_s3_folder w self h = (Inr r, h')"
  using assms by (simp add: get_files_from_s3_folder_def)

subsection \<open>The example worlds, evaluated, and facts used with them\<close>

lemma example_connection_client: "s3_client example_connection = Some example_client"
  by (simp add: example_connection_def)

lemma unreachable_answer: "s3_answer unreachable_aws h = Inl EndpointConnectionError"
  by (simp add: unreachable_aws_def granting_aws_def)

lemma no_rows_answer:
  "s3_answer no_rows_aws h = Inr \<lparr>Name = ''inversolarmx'', Contents = Some []\<rparr>"
  by (simp add: no_rows_aws_def granting_aws_def)

lemma empty_bucket_answer:
  "s3_answer empty_bucket_aws h = Inr \<lparr>Name = ''inversolarmx'', Contents = None\<rparr>"
  by (simp add: empty_bucket_aws_def granting_aws_def)

lemma granting_answer:
  "s3_answer granting_aws h = Inr \<lparr>Name = ''inversolarmx'', Contents = Some [example_object]\<rparr>"
  by (simp add: granting_aws_def)

lemma assumed_session_not_initial: "assumed_session c r \<noteq> initial_session k s r'"
  by (simp add: assumed_session_def initial_session_def)

lemma example_self_role: "truthy (assume_role_arn example_self)"
  by (simp add: example_self_def truthy_def example_role_def)

lemma example_initial_session:
  "initial_session (Some ''AKIAEXAMPLE'') (Some ''long-term-secret'') (region_name example_self)
     = example_keys"
  by (simp add: initial_session_def truthy_def example_keys_def example_self_def)

lemma digit_char_eq: "d < 208 \<Longrightarrow> of_char c = 48 + d \<Longrightarrow> digit_char d = c"
proof -
  assume d: "d < 208" and c: "of_char c = 48 + d"
  have "(of_char (digit_char d) :: nat) = of_char c"
    using d c by (simp add: digit_char_def)
  then show ?thesis by simp
qed

lemma digit_chars:
  "digit_char 0 = CHR ''0''" "digit_char (Suc 0) = CHR ''1''" "digit_char 7 = CHR ''7''"
  by (rule digit_char_eq; simp)+

lemma str_int_example: "str_int 1700000000 = ''1700000000''"
  by (simp add: str_int_def str_nat.simps digit_chars)

lemma granting_first_name: "RoleSessionName granting_aws [] = ''S3ExcelProcessor-1700000000''"
  by (simp add: RoleSessionName_def granting_aws_def int_of_timestamp_def str_int_example)

lemma granting_second_name: "RoleSessionName granting_aws [c] = ''S3ExcelProcessor-1700000000''"
  by (simp add: RoleSessionName_def granting_aws_def int_of_timestamp_def str_int_example)

lemma granting_sts: "sts_answer granting_aws h = Inr \<lparr>Credentials = example_credentials\<rparr>"
  by (simp add: granting_aws_def)

lemma initialize_first_call:
  "\<exists>rest. snd (initialize_aws_clients w self k s h) =
     h @ (if truthy (assume_role_arn self)
          then AssumeRole (client (initial_session k s (region_name self)) ''sts'')
                 (assume_role_arn self) (RoleSessionName w h)
          else ListObjectsV2 (client (initial_session k s (region_name self)) ''s3'')
                 SOURCE_BUCKET None) # rest"
proof (cases "truthy (assume_role_arn self)")
  case True
  then show ?thesis
    by (simp add: initialize_with_role Let_def split: sum.splits)
next
  case False
  then show ?thesis
    by (simp add: initialize_without_role Let_def split: sum.splits)
qed

lemma truthy_Some: "truthy (Some v) = (v \<noteq> [])"
  by (simp add: truthy_def)

lemma truthy_None: "truthy None = False"
  by (simp add: truthy_def)

subsection \<open>Success and failure of the construction\<close>

lemma initialize_success:
  assumes "initialize_aws_clients w self k s h = (Inr self', h')"
  shows "\<exists>c hs response. s3_client self' = Some c \<and>
    h' = hs @ [ListObjectsV2 c SOURCE_BUCKET None] \<and> s3_answer w h' = Inr response \<and>
    filter is_listing (drop (length h) h') = [ListObjectsV2 c SOURCE_BUCKET None]"
proof (cases "truthy (assume_role_arn self)")
  case True
  with assms show ?thesis
    by (auto simp: initialize_with_role Let_def split: sum.splits)
next
  case False
  with assms show ?thesis
    by (auto simp: initialize_without_role Let_def split: sum.splits)
qed

lemma initialize_failed_listing:
  assumes "snd (initialize_aws_clients w self k s h) = hs @ [ListObjectsV2 c b p]"
    and "s3_answer w (hs @ [ListObjectsV2 c b p]) = Inl e"
  shows "fst (initialize_aws_clients w self k s h) = Inl e"
proof (cases "truthy (assume_role_arn self)")
  case True
  with assms show ?thesis
    by (auto simp: initialize_with_role Let_def split: sum.splits)
next
  case False
  with assms show ?thesis
    by (auto simp: initialize_without_role Let_def split: sum.splits)
qed

lemma example_initialize:
  "initialize_aws_clients granting_aws
     \<lparr>region_name = ''us-east-1'', assume_role_arn = None, s3_client = None\<rparr>
     (Some ''AKIAEXAMPLE'') (Some ''long-term-secret'') [] =
   (Inr example_connection, [ListObjectsV2 example_client SOURCE_BUCKET None])"
  using example_construction by (simp add: AwsConnection_init_def)

lemma example_initialize_unreachable:
  "initialize_aws_clients unreachable_aws
     \<lparr>region_name = ''us-east-1'', assume_role_arn = None, s3_client = None\<rparr>
     (Some ''AKIAEXAMPLE'') (Some ''long-term-secret'') [] =
   (Inl EndpointConnectionError, [ListObjectsV2 example_client SOURCE_BUCKET None])"
  by (simp add: initialize_without_role truthy_None truthy_Some initial_session_def
      unreachable_answer example_client_def Let_def)

lemma rejecting_sts: "sts_answer rejecting_aws h = Inl (ClientError ''AccessDenied'')"
  by (simp add: rejecting_aws_def)

lemma rejecting_first_name: "RoleSessionName rejecting_aws [] = ''S3ExcelProcessor-1700000000''"
  by (simp add: RoleSessionName_def rejecting_aws_def granting_aws_def int_of_timestamp_def
      str_int_example)

lemma example_keys_session:
  "initial_session (Some ''AKIAEXAMPLE'') (Some ''long-term-secret'') ''us-east-1'' = example_keys"
  by (simp add: initial_session_def truthy_Some example_keys_def)

section \<open>The claims\<close>

text \<open>
  C1. When a role is given, the first call of the construction is \<open>assume_role\<close> through
  an STS client of the first session. When STS answers with credentials, the one call
  that follows is the validation listing through an S3 client of a new session built
  from exactly those credentials (access key, secret key, session token); that client is
  the one stored in the returned connection, and every later
  \<open>get_files_from_s3_folder\<close> goes through it. The new session is never the first one:
  it carries a session token, the first has none.
\<close>

theorem assumed_role_session_serves_storage:
  assumes "truthy (assume_role_arn self)"
  shows
   "(\<exists>rest. snd (initialize_aws_clients w self k s h) =
       h @ AssumeRole (client (initial_session k s (region_name self)) ''sts'')
             (assume_role_arn self) (RoleSessionName w h) # rest) \<and>
    (\<forall>r. sts_answer w
            (h @ [AssumeRole (client (initial_session k s (region_name self)) ''sts'')
                    (assume_role_arn self) (RoleSessionName w h)]) = Inr r \<longrightarrow>
       snd (initialize_aws_clients w self k s h) =
         h @ [AssumeRole (client (initial_session k s (region_name self)) ''sts'')
                (assume_role_arn self) (RoleSessionName w h),
              ListObjectsV2 (client (assumed_session (Credentials r) (region_name self)) ''s3'')
                SOURCE_BUCKET None]) \<and>
    (\<forall>self' h'. initialize_aws_clients w self k s h = (Inr self', h') \<longrightarrow>
       (\<exists>r. sts_answer w
              (h @ [AssumeRole (client (initial_session k s (region_name self)) ''sts'')
                      (assume_role_arn self) (RoleSessionName w h)]) = Inr r \<and>
          s3_client self' =
            Some (client (assumed_session (Credentials r) (region_name self)) ''s3'') \<and>
          (\<forall>w' g. snd (get_files_from_s3_folder w' self' g) =
             g @ [ListObjectsV2
                    (client (assumed_session (Credentials r) (region_name self)) ''s3'')
                    SOURCE_BUCKET None]))) \<and>
    (\<forall>c. assumed_session c (region_name self) \<noteq> initial_session k s (region_name self) \<and>
       aws_access_key_id (assumed_session c (region_name self)) = Some (AccessKeyId c) \<and>
       aws_secret_access_key (assumed_session c (region_name self)) = Some (SecretAccessKey c) \<and>
       aws_session_token (assumed_session c (region_name self)) = Some (SessionToken c))"
proof (intro conjI allI impI)
  show "\<exists>rest. snd (initialize_aws_clients w self k s h) =
       h @ AssumeRole (client (initial_session k s (region_name self)) ''sts'')
             (assume_role_arn self) (RoleSessionName w h) # rest"
    using assms by (simp add: initialize_with_role Let_def split: sum.splits)
next
  fix r
  assume "sts_answer w
            (h @ [AssumeRole (client (initial_session k s (region_name self)) ''sts'')
                    (assume_role_arn self) (RoleSessionName w h)]) = Inr r"
  then show "snd (initialize_aws_clients w self k s h) =
         h @ [AssumeRole (client (initial_session k s (region_name self)) ''sts'')
                (assume_role_arn self) (RoleSessionName w h),
              ListObjectsV2 (client (assumed_session (Credentials r) (region_name self)) ''s3'')
                SOURCE_BUCKET None]"
    using assms by (simp add: initialize_with_role Let_def split: sum.splits)
next
  fix self' h'
  assume ok: "initialize_aws_clients w self k s h = (Inr self', h')"
  then obtain r where r: "sts_answer w
              (h @ [AssumeRole (client (initial_session k s (region_name self)) ''sts'')
                      (assume_role_arn self) (RoleSessionName w h)]) = Inr r"
    and c: "s3_client self' =
            Some (client (assumed_session (Credentials r) (region_name self)) ''s3'')"
    using assms by (auto simp: initialize_with_role Let_def split: sum.splits)
  from c have "\<forall>w' g. snd (get_files_from_s3_folder w' self' g) =
             g @ [ListObjectsV2
                    (client (assumed_session (Credentials r) (region_name self)) ''s3'')
                    SOURCE_BUCKET None]"
    by (simp add: get_files_calls)
  with r c show "\<exists>r. sts_answer w
              (h @ [AssumeRole (client (initial_session k s (region_name self)) ''sts'')
                      (assume_role_arn self) (RoleSessionName w h)]) = Inr r \<and>
          s3_client self' =
            Some (client (assumed_session (Credentials r) (region_name self)) ''s3'') \<and>
          (\<forall>w' g. snd (get_files_from_s3_folder w' self' g) =
             g @ [ListObjectsV2
                    (client (assumed_session (Credentials r) (region_name self)) ''s3'')
                    SOURCE_BUCKET None])"
    by blast
next
  fix c
  show "assumed_session c (region_name self) \<noteq> initial_session k s (region_name self)"
    by (rule assumed_session_not_initial)
  show "aws_access_key_id (assumed_session c (region_name self)) = Some (AccessKeyId c)"
    "aws_secret_access_key (assumed_session c (region_name self)) = Some (SecretAccessKey c)"
    "aws_session_token (assumed_session c (region_name self)) = Some (SessionToken c)"
    by (simp_all add: assumed_session_def)
qed

theorem assumed_role_session_serves_storage_witness:
  "truthy (assume_role_arn example_self) \<and>
   sts_answer granting_aws
     ([] @ [AssumeRole (client example_keys ''sts'') (Some example_role)
              ''S3ExcelProcessor-1700000000'']) = Inr \<lparr>Credentials = example_credentials\<rparr> \<and>
   snd (initialize_aws_clients granting_aws example_self
          (Some ''AKIAEXAMPLE'') (Some ''long-term-secret'') []) =
     [AssumeRole (client example_keys ''sts'') (Some example_role) ''S3ExcelProcessor-1700000000'',
      ListObjectsV2 (client (assumed_session example_credentials ''us-east-1'') ''s3'')
        SOURCE_BUCKET None]"
  using assumed_role_session_serves_storage [OF example_self_role,
      of granting_aws "Some ''AKIAEXAMPLE''" "Some ''long-term-secret''" "[]"]
  by (simp add: example_self_role example_initial_session granting_first_name granting_sts)
    (simp add: example_self_def)

text \<open>
  C2. The first call of every construction (the \<open>assume_role\<close> when a role is given, the
  validation listing otherwise) goes through a client of the first session, and that
  session holds the given key id and secret when both are supplied, and no credentials at
  all, which leaves boto3 to its default chain, when at least one is missing. Supplied is
  what line 72 tests: given and not the empty string.
\<close>

theorem first_session_explicit_or_default:
  "(truthy k \<and> truthy s \<longrightarrow>
      (\<exists>rest. snd (initialize_aws_clients w self k s h) =
         h @ (if truthy (assume_role_arn self)
              then AssumeRole
                     (client \<lparr>aws_access_key_id = k, aws_secret_access_key = s,
                              aws_session_token = None,
                              session_region_name = region_name self\<rparr> ''sts'')
                     (assume_role_arn self) (RoleSessionName w h)
              else ListObjectsV2
                     (client \<lparr>aws_access_key_id = k, aws_secret_access_key = s,
                              aws_session_token = None,
                              session_region_name = region_name self\<rparr> ''s3'')
                     SOURCE_BUCKET None) # rest)) \<and>
   (\<not> (truthy k \<and> truthy s) \<longrightarrow>
      (\<exists>rest. snd (initialize_aws_clients w self k s h) =
         h @ (if truthy (assume_role_arn self)
              then AssumeRole
                     (client \<lparr>aws_access_key_id = None, aws_secret_access_key = None,
                              aws_session_token = None,
                              session_region_name = region_name self\<rparr> ''sts'')
                     (assume_role_arn self) (RoleSessionName w h)
              else ListObjectsV2
                     (client \<lparr>aws_access_key_id = None, aws_secret_access_key = None,
                              aws_session_token = None,
                              session_region_name = region_name self\<rparr> ''s3'')
                     SOURCE_BUCKET None) # rest))"
proof (intro conjI impI)
  assume "truthy k \<and> truthy s"
  then have eq: "initial_session k s (region_name self) =
    \<lparr>aws_access_key_id = k, aws_secret_access_key = s, aws_session_token = None,
     session_region_name = region_name self\<rparr>"
    by (simp add: initial_session_def)
  from initialize_first_call [of w self k s h]
  show "\<exists>rest. snd (initialize_aws_clients w self k s h) =
         h @ (if truthy (assume_role_arn self)
              then AssumeRole
                     (client \<lparr>aws_access_key_id = k, aws_secret_access_key = s,
                              aws_session_token = None,
                              session_region_name = region_name self\<rparr> ''sts'')
                     (assume_role_arn self) (RoleSessionName w h)
              else ListObjectsV2
                     (client \<lparr>aws_access_key_id = k, aws_secret_access_key = s,
                              aws_session_token = None,
                              session_region_name = region_name self\<rparr> ''s3'')
                     SOURCE_BUCKET None) # rest"
    unfolding eq .
next
  assume "\<not> (truthy k \<and> truthy s)"
  then have eq: "initial_session k s (region_name self) =
    \<lparr>aws_access_key_id = None, aws_secret_access_key = None, aws_session_token = None,
     session_region_name = region_name self\<rparr>"
    by (auto simp: initial_session_def)
  from initialize_first_call [of w self k s h]
  show "\<exists>rest. snd (initialize_aws_clients w self k s h) =
         h @ (if truthy (assume_role_arn self)
              then AssumeRole
                     (client \<lparr>aws_access_key_id = None, aws_secret_access_key = None,
                              aws_session_token = None,
                              session_region_name = region_name self\<rparr> ''sts'')
                     (assume_role_arn self) (RoleSessionName w h)
              else ListObjectsV2
                     (client \<lparr>aws_access_key_id = None, aws_secret_access_key = None,
                              aws_session_token = None,
                              session_region_name = region_name self\<rparr> ''s3'')
                     SOURCE_BUCKET None) # rest"
    unfolding eq .
qed

theorem first_session_explicit_or_default_witness:
  "truthy (Some ''AKIAEXAMPLE'') \<and> truthy (Some ''long-term-secret'') \<and>
   (\<exists>rest. snd (initialize_aws_clients granting_aws example_self
                   (Some ''AKIAEXAMPLE'') (Some ''long-term-secret'') []) =
      AssumeRole (client example_keys ''sts'') (Some example_role)
        ''S3ExcelProcessor-1700000000'' # rest) \<and>
   \<not> (truthy (Some ''AKIAEXAMPLE'') \<and> truthy (Some '''')) \<and>
   (\<exists>rest. snd (initialize_aws_clients granting_aws example_self
                   (Some ''AKIAEXAMPLE'') (Some '''') []) =
      AssumeRole
        (client \<lparr>aws_access_key_id = None, aws_secret_access_key = None,
                 aws_session_token = None, session_region_name = ''us-east-1''\<rparr> ''sts'')
        (Some example_role) ''S3ExcelProcessor-1700000000'' # rest)"
  using
    first_session_explicit_or_default
      [of "Some ''AKIAEXAMPLE''" "Some ''long-term-secret''" granting_aws example_self "[]"]
    first_session_explicit_or_default
      [of "Some ''AKIAEXAMPLE''" "Some ''''" granting_aws example_self "[]"]
  by (simp add: truthy_Some example_self_role granting_first_name example_keys_def)
    (simp add: example_self_def)

text \<open>
  C3. A construction that returns a connection has made exactly one listing call, on the
  source bucket and through the client it stored, as its last call, and the service
  answered that call. Whenever the last call of a construction is a listing that the
  service answered with an exception, the construction raises that same exception. So no
  connection is returned without a listing that succeeded.
\<close>

theorem construction_checks_connectivity:
  "(\<forall>self' h'. initialize_aws_clients w self k s h = (Inr self', h') \<longrightarrow>
      (\<exists>c hs response. s3_client self' = Some c \<and>
         h' = hs @ [ListObjectsV2 c SOURCE_BUCKET None] \<and> s3_answer w h' = Inr response \<and>
         filter is_listing (drop (length h) h') = [ListObjectsV2 c SOURCE_BUCKET None])) \<and>
   (\<forall>hs c b p e. snd (initialize_aws_clients w self k s h) = hs @ [ListObjectsV2 c b p] \<and>
      s3_answer w (hs @ [ListObjectsV2 c b p]) = Inl e \<longrightarrow>
      fst (initialize_aws_clients w self k s h) = Inl e)"
  using initialize_success [of w self k s h] initialize_failed_listing [of w self k s h]
  by blast


theorem construction_checks_connectivity_witness:
  "initialize_aws_clients granting_aws
     \<lparr>region_name = ''us-east-1'', assume_role_arn = None, s3_client = None\<rparr>
     (Some ''AKIAEXAMPLE'') (Some ''long-term-secret'') [] =
     (Inr example_connection, [ListObjectsV2 example_client SOURCE_BUCKET None]) \<and>
   (\<exists>c hs response. s3_client example_connection = Some c \<and>
      [ListObjectsV2 example_client SOURCE_BUCKET None] =
        hs @ [ListObjectsV2 c SOURCE_BUCKET None] \<and>
      s3_answer granting_aws [ListObjectsV2 example_client SOURCE_BUCKET None] = Inr response \<and>
      filter is_listing (drop (length ([] :: api_call list))
        [ListObjectsV2 example_client SOURCE_BUCKET None]) =
        [ListObjectsV2 c SOURCE_BUCKET None]) \<and>
   snd (initialize_aws_clients unreachable_aws
     \<lparr>region_name = ''us-east-1'', assume_role_arn = None, s3_client = None\<rparr>
     (Some ''AKIAEXAMPLE'') (Some ''long-term-secret'') []) =
     [] @ [ListObjectsV2 example_client SOURCE_BUCKET None] \<and>
   s3_answer unreachable_aws ([] @ [ListObjectsV2 example_client SOURCE_BUCKET None]) =
     Inl EndpointConnectionError \<and>
   fst (initialize_aws_clients unreachable_aws
     \<lparr>region_name = ''us-east-1'', assume_role_arn = None, s3_client = None\<rparr>
     (Some ''AKIAEXAMPLE'') (Some ''long-term-secret'') []) = Inl EndpointConnectionError"
proof -
  let ?fresh = "\<lparr>region_name = ''us-east-1'', assume_role_arn = None, s3_client = None\<rparr>"
  let ?k = "Some ''AKIAEXAMPLE''" and ?s = "Some ''long-term-secret''"
  note ok = construction_checks_connectivity [of granting_aws ?fresh ?k ?s "[]"]
  note ko = construction_checks_connectivity [of unreachable_aws ?fresh ?k ?s "[]"]
  from ok have
    "\<exists>c hs response. s3_client example_connection = Some c \<and>
      [ListObjectsV2 example_client SOURCE_BUCKET None] =
        hs @ [ListObjectsV2 c SOURCE_BUCKET None] \<and>
      s3_answer granting_aws [ListObjectsV2 example_client SOURCE_BUCKET None] = Inr response \<and>
      filter is_listing (drop (length ([] :: api_call list))
        [ListObjectsV2 example_client SOURCE_BUCKET None]) =
        [ListObjectsV2 c SOURCE_BUCKET None]"
    using example_initialize by blast
  moreover from ko have
    "fst (initialize_aws_clients unreachable_aws ?fresh ?k ?s []) = Inl EndpointConnectionError"
    using example_initialize_unreachable unreachable_answer
    by (metis append_Nil snd_conv)
  ultimately show ?thesis
    using example_initialize example_initialize_unreachable unreachable_answer by simp
qed

text \<open>
  C4. \<open>get_files_from_s3_folder\<close> turns every exception of its \<open>try\<close> body into the
  empty list: an exception raised by the listing call itself, and an exception raised
  while the frame is normalized (here the \<open>KeyError\<close> of a frame without columns). The
  value returned is the one returned for a response without \<open>Contents\<close>, so the caller
  cannot tell a failed listing from an empty bucket.
\<close>

theorem listing_errors_become_empty_list:
  "(\<forall>e h'. get_files_try w self h = (Inl e, h') \<longrightarrow>
       get_files_from_s3_folder w self h = (Inr (PyList []), h')) \<and>
   (\<forall>c e. s3_client self = Some c \<and>
       s3_answer w (h @ [ListObjectsV2 c SOURCE_BUCKET None]) = Inl e \<longrightarrow>
       get_files_from_s3_folder w self h =
         (Inr (PyList []), h @ [ListObjectsV2 c SOURCE_BUCKET None])) \<and>
   (\<forall>c response. s3_client self = Some c \<and>
       s3_answer w (h @ [ListObjectsV2 c SOURCE_BUCKET None]) = Inr response \<and>
       Contents response = Some [] \<longrightarrow>
       get_files_try w self h =
         (Inl (KeyError ''Key''), h @ [ListObjectsV2 c SOURCE_BUCKET None]) \<and>
       get_files_from_s3_folder w self h =
         (Inr (PyList []), h @ [ListObjectsV2 c SOURCE_BUCKET None])) \<and>
   (\<forall>c response. s3_client self = Some c \<and>
       s3_answer w (h @ [ListObjectsV2 c SOURCE_BUCKET None]) = Inr response \<and>
       Contents response = None \<longrightarrow>
       get_files_from_s3_folder w self h =
         (Inr (PyList []), h @ [ListObjectsV2 c SOURCE_BUCKET None]))"
proof (intro conjI allI impI)
  fix e h'
  assume "get_files_try w self h = (Inl e, h')"
  then show "get_files_from_s3_folder w self h = (Inr (PyList []), h')"
    by (rule get_files_catches)
next
  fix c e
  assume "s3_client self = Some c \<and>
       s3_answer w (h @ [ListObjectsV2 c SOURCE_BUCKET None]) = Inl e"
  then show "get_files_from_s3_folder w self h =
         (Inr (PyList []), h @ [ListObjectsV2 c SOURCE_BUCKET None])"
    by (simp add: get_files_try_raises get_files_catches)
next
  fix c response
  assume a: "s3_client self = Some c \<and>
       s3_answer w (h @ [ListObjectsV2 c SOURCE_BUCKET None]) = Inr response \<and>
       Contents response = Some []"
  then show t: "get_files_try w self h =
         (Inl (KeyError ''Key''), h @ [ListObjectsV2 c SOURCE_BUCKET None])"
    by (simp add: get_files_try_empty_contents)
  then show "get_files_from_s3_folder w self h =
         (Inr (PyList []), h @ [ListObjectsV2 c SOURCE_BUCKET None])"
    by (rule get_files_catches)
next
  fix c response
  assume "s3_client self = Some c \<and>
       s3_answer w (h @ [ListObjectsV2 c SOURCE_BUCKET None]) = Inr response \<and>
       Contents response = None"
  then show "get_files_from_s3_folder w self h =
         (Inr (PyList []), h @ [ListObjectsV2 c SOURCE_BUCKET None])"
    by (simp add: get_files_try_no_contents get_files_passes)
qed

theorem listing_errors_become_empty_list_witness:
  "get_files_try unreachable_aws example_connection [] =
     (Inl EndpointConnectionError, [ListObjectsV2 example_client SOURCE_BUCKET None]) \<and>
   get_files_from_s3_folder unreachable_aws example_connection [] =
     (Inr (PyList []), [ListObjectsV2 example_client SOURCE_BUCKET None]) \<and>
   get_files_try no_rows_aws example_connection [] =
     (Inl (KeyError ''Key''), [ListObjectsV2 example_client SOURCE_BUCKET None]) \<and>
   get_files_from_s3_folder no_rows_aws example_connection [] =
     (Inr (PyList []), [ListObjectsV2 example_client SOURCE_BUCKET None]) \<and>
   get_files_from_s3_folder empty_bucket_aws example_connection [] =
     (Inr (PyList []), [ListObjectsV2 example_client SOURCE_BUCKET None])"
proof -
  have t: "get_files_try unreachable_aws example_connection [] =
     (Inl EndpointConnectionError, [ListObjectsV2 example_client SOURCE_BUCKET None])"
    by (simp add: get_files_try_def example_connection_def unreachable_answer Let_def)
  show ?thesis
    using t
      listing_errors_become_empty_list [of unreachable_aws example_connection "[]"]
      listing_errors_become_empty_list [of no_rows_aws example_connection "[]"]
      listing_errors_become_empty_list [of empty_bucket_aws example_connection "[]"]
    by (simp add: example_connection_client unreachable_answer no_rows_answer
        empty_bucket_answer)
qed

text \<open>
  C5. When a role is given and STS answers the \<open>assume_role\<close> call with an exception,
  the construction raises that exception, the \<open>assume_role\<close> is the only call it has
  made, and so the history holds no listing that it did not hold before. The entry point
  \<open>run_manual_test\<close>, whose arguments resolve to that role and those keys, raises the
  same exception after the same single call: neither the validation listing nor the
  enumeration listing is attempted.
\<close>

theorem rejected_role_stops_before_listing:
  assumes "truthy role"
    and "sts_answer w
           (h @ [AssumeRole (client (initial_session k s region) ''sts'') role
                   (RoleSessionName w h)]) = Inl e"
  shows
   "AwsConnection_init w role k s region h =
      (Inl e, h @ [AssumeRole (client (initial_session k s region) ''sts'') role
                     (RoleSessionName w h)]) \<and>
    filter is_listing (snd (AwsConnection_init w role k s region h)) = filter is_listing h \<and>
    (\<forall>environ a b r g.
       arg_or_environ environ ''AWS_ACCESS_KEY_ID'' a = k \<and>
       arg_or_environ environ ''AWS_SECRET_ACCESS_KEY'' b = s \<and>
       arg_or_environ environ ''ASSUME_ROLE_ARN'' r = role \<and>
       region_or_environ environ g = region \<longrightarrow>
       run_manual_test w environ a b r g h =
         (Inl e, h @ [AssumeRole (client (initial_session k s region) ''sts'') role
                        (RoleSessionName w h)]))"
proof -
  have init: "AwsConnection_init w role k s region h =
      (Inl e, h @ [AssumeRole (client (initial_session k s region) ''sts'') role
                     (RoleSessionName w h)])"
    using assms by (simp add: AwsConnection_init_def initialize_with_role Let_def)
  then have "filter is_listing (snd (AwsConnection_init w role k s region h)) =
      filter is_listing h"
    by simp
  moreover from init have "\<forall>environ a b r g.
       arg_or_environ environ ''AWS_ACCESS_KEY_ID'' a = k \<and>
       arg_or_environ environ ''AWS_SECRET_ACCESS_KEY'' b = s \<and>
       arg_or_environ environ ''ASSUME_ROLE_ARN'' r = role \<and>
       region_or_environ environ g = region \<longrightarrow>
       run_manual_test w environ a b r g h =
         (Inl e, h @ [AssumeRole (client (initial_session k s region) ''sts'') role
                        (RoleSessionName w h)])"
    by (simp add: run_manual_test_def Let_def)
  ultimately show ?thesis using init by blast
qed

theorem rejected_role_stops_before_listing_witness:
  "truthy (Some example_role) \<and>
   sts_answer rejecting_aws
     ([] @ [AssumeRole (client example_keys ''sts'') (Some example_role)
              ''S3ExcelProcessor-1700000000'']) = Inl (ClientError ''AccessDenied'') \<and>
   AwsConnection_init rejecting_aws (Some example_role) (Some ''AKIAEXAMPLE'')
     (Some ''long-term-secret'') ''us-east-1'' [] =
     (Inl (ClientError ''AccessDenied''),
      [AssumeRole (client example_keys ''sts'') (Some example_role)
         ''S3ExcelProcessor-1700000000'']) \<and>
   run_manual_test rejecting_aws Map.empty (Some ''AKIAEXAMPLE'') (Some ''long-term-secret'')
     (Some example_role) (Some ''us-east-1'') [] =
     (Inl (ClientError ''AccessDenied''),
      [AssumeRole (client example_keys ''sts'') (Some example_role)
         ''S3ExcelProcessor-1700000000''])"
proof -
  have r: "truthy (Some example_role)"
    by (simp add: truthy_Some example_role_def)
  have a: "sts_answer rejecting_aws
     ([] @ [AssumeRole
              (client (initial_session (Some ''AKIAEXAMPLE'') (Some ''long-term-secret'')
                 ''us-east-1'') ''sts'')
              (Some example_role) (RoleSessionName rejecting_aws [])]) =
     Inl (ClientError ''AccessDenied'')"
    by (rule rejecting_sts)
  have args:
    "arg_or_environ Map.empty ''AWS_ACCESS_KEY_ID'' (Some ''AKIAEXAMPLE'') = Some ''AKIAEXAMPLE''"
    "arg_or_environ Map.empty ''AWS_SECRET_ACCESS_KEY'' (Some ''long-term-secret'') =
       Some ''long-term-secret''"
    "arg_or_environ Map.empty ''ASSUME_ROLE_ARN'' (Some example_role) = Some example_role"
    "region_or_environ Map.empty (Some ''us-east-1'') = ''us-east-1''"
    by (simp_all add: arg_or_environ_def region_or_environ_def truthy_Some example_role_def)
  from rejected_role_stops_before_listing [OF r a] args r show ?thesis
    by (simp add: rejecting_sts rejecting_first_name example_keys_session)
qed

text \<open>
  C6. Every invocation of \<open>get_files_from_s3_folder\<close> on a connection that a construction
  returned issues exactly one call: the history grows by one \<open>list_objects_v2\<close> on the
  source bucket, through the connection's client, and that call carries no \<open>Prefix\<close>. The
  prefix computed on line 150 goes nowhere, so the call lists the whole bucket. This holds
  whatever the service answers, and whatever happened between construction and listing.
\<close>

theorem listing_issues_one_unfiltered_call:
  assumes "AwsConnection_init w0 role k s region h0 = (Inr self, h1)"
  shows "\<exists>c. s3_client self = Some c \<and>
    snd (get_files_from_s3_folder w self h) = h @ [ListObjectsV2 c SOURCE_BUCKET None]"
proof -
  from assms obtain c where "s3_client self = Some c"
    unfolding AwsConnection_init_def by (blast dest: initialize_sets_client)
  then show ?thesis by (simp add: get_files_calls)
qed

theorem listing_issues_one_unfiltered_call_witness:
  "AwsConnection_init granting_aws None (Some ''AKIAEXAMPLE'') (Some ''long-term-secret'')
     ''us-east-1'' [] =
   (Inr example_connection, [ListObjectsV2 example_client SOURCE_BUCKET None]) \<and>
   (\<exists>c. s3_client example_connection = Some c \<and>
     snd (get_files_from_s3_folder unreachable_aws example_connection
            [ListObjectsV2 example_client SOURCE_BUCKET None]) =
     [ListObjectsV2 example_client SOURCE_BUCKET None] @ [ListObjectsV2 c SOURCE_BUCKET None])"
  using listing_issues_one_unfiltered_call [OF example_construction,
      where w = unreachable_aws and h = "[ListObjectsV2 example_client SOURCE_BUCKET None]"]
    example_construction by simp

text \<open>
  C7. In the frame returned for a response with entries, row \<open>i\<close> carries the instant of
  entry \<open>i\<close>'s \<open>LastModified\<close>, to the microsecond, in the zone America/Mexico_City, and
  so every timestamp of the frame is timezone-aware. The two pandas calls of lines 165-170
  are modelled by their documented effect on instants and zones.
\<close>

theorem last_modified_same_instant_in_target_zone:
  assumes "s3_client self = Some c"
    and "s3_answer w (h @ [ListObjectsV2 c SOURCE_BUCKET None]) = Inr response"
    and "Contents response = Some recs" and "recs \<noteq> []"
  shows "\<exists>df. fst (get_files_from_s3_folder w self h) = Inr (Frame df) \<and>
    length (rows df) = length recs \<and>
    (\<forall>i < length recs.
       instant_us (LastModified (rows df ! i)) = instant_us (LastModified (recs ! i)) \<and>
       tzinfo (LastModified (rows df ! i)) = Some ''America/Mexico_City'' \<and>
       Key (rows df ! i) = Key (recs ! i))"
proof -
  have "get_files_try w self h =
    (Inr (Frame \<lparr>columns = [''Key'', ''LastModified'', ''ETag'', ''Size'', ''StorageClass''],
                 rows = map (\<lambda>r. r\<lparr>LastModified :=
                   \<lparr>instant_us = instant_us (LastModified r),
                    tzinfo = Some ''America/Mexico_City''\<rparr>\<rparr>) recs\<rparr>),
     h @ [ListObjectsV2 c SOURCE_BUCKET None])"
    using assms by (rule get_files_try_contents)
  then show ?thesis
    by (simp add: get_files_passes)
qed

theorem last_modified_same_instant_in_target_zone_witness:
  "s3_client example_connection = Some example_client \<and>
   s3_answer granting_aws ([] @ [ListObjectsV2 example_client SOURCE_BUCKET None]) =
     Inr \<lparr>Name = ''inversolarmx'', Contents = Some [example_object]\<rparr> \<and>
   [example_object] \<noteq> [] \<and>
   (\<exists>df. fst (get_files_from_s3_folder granting_aws example_connection []) = Inr (Frame df) \<and>
     length (rows df) = 1 \<and>
     instant_us (LastModified (rows df ! 0)) = 1746057600123456 \<and>
     tzinfo (LastModified (rows df ! 0)) = Some ''America/Mexico_City'')"
  using last_modified_same_instant_in_target_zone
    [OF example_connection_client granting_answer, where recs = "[example_object]" and h = "[]"]
  by (auto simp: example_connection_client granting_answer example_object_def)

text \<open>
  C8. The claim that two invocations of \<open>_assume_role\<close> never pass the same session
  name fails: line 122 keeps only the whole seconds of the clock, so two invocations
  within one second pass the same name. Below, the clock reads 1700000000.1 seconds at
  the first invocation and 1700000000.9 at the second.
\<close>

theorem session_name_repeats_within_a_second:
  "now_timestamp_us granting_aws [] \<noteq>
     now_timestamp_us granting_aws (snd (assume_role granting_aws example_self example_keys [])) \<and>
   snd (assume_role granting_aws example_self example_keys
          (snd (assume_role granting_aws example_self example_keys []))) =
     [AssumeRole (client example_keys ''sts'') (Some example_role) ''S3ExcelProcessor-1700000000'',
      AssumeRole (client example_keys ''sts'') (Some example_role) ''S3ExcelProcessor-1700000000'']"
  by (simp add: assume_role_def Let_def granting_sts granting_first_name granting_second_name
      example_self_def)
    (simp add: granting_aws_def)

text \<open>
  C8, as amended. Every invocation of \<open>_assume_role\<close> makes one \<open>assume_role\<close> call
  whose session name is the prefix \<open>S3ExcelProcessor-\<close> followed by the decimal whole
  seconds of the clock reading at call time, and two invocations pass the same name
  exactly when their clock readings have the same whole seconds.
\<close>

theorem session_name_is_prefix_and_whole_seconds:
  "snd (assume_role w self session h) =
     h @ [AssumeRole (client session ''sts'') (assume_role_arn self) (RoleSessionName w h)] \<and>
   RoleSessionName w h =
     ''S3ExcelProcessor-'' @ str_int (int_of_timestamp (now_timestamp_us w h)) \<and>
   (RoleSessionName w h = RoleSessionName w' h' \<longleftrightarrow>
      int_of_timestamp (now_timestamp_us w h) = int_of_timestamp (now_timestamp_us w' h'))"
proof (intro conjI)
  show "snd (assume_role w self session h) =
     h @ [AssumeRole (client session ''sts'') (assume_role_arn self) (RoleSessionName w h)]"
    by (simp add: assume_role_def Let_def split: sum.splits)
  show "RoleSessionName w h =
     ''S3ExcelProcessor-'' @ str_int (int_of_timestamp (now_timestamp_us w h))"
    by (simp add: RoleSessionName_def)
  show "RoleSessionName w h = RoleSessionName w' h' \<longleftrightarrow>
      int_of_timestamp (now_timestamp_us w h) = int_of_timestamp (now_timestamp_us w' h')"
    by (simp add: RoleSessionName_def str_int_eq_iff)
qed

text \<open>
  C9. A listing whose response carries no entries returns the empty list and raises
  nothing: when the response has no \<open>Contents\<close> key (what S3 sends for an empty bucket)
  line 160 returns \<open>[]\<close>, and when \<open>Contents\<close> is an empty list the frame has no
  \<open>Key\<close> column, line 164 raises \<open>KeyError\<close> and the handler of line 176 turns it
  into \<open>[]\<close>.
\<close>

theorem empty_response_gives_empty_list:
  assumes "s3_client self = Some c"
    and "s3_answer w (h @ [ListObjectsV2 c SOURCE_BUCKET None]) = Inr response"
    and "Contents response = None \<or> Contents response = Some []"
  shows "get_files_from_s3_folder w self h =
    (Inr (PyList []), h @ [ListObjectsV2 c SOURCE_BUCKET None])"
  using assms(3)
proof
  assume "Contents response = None"
  then show ?thesis
    using get_files_try_no_contents [OF assms(1,2)] by (simp add: get_files_passes)
next
  assume "Contents response = Some []"
  then show ?thesis
    using get_files_try_empty_contents [OF assms(1,2)] by (simp add: get_files_catches)
qed

theorem empty_response_gives_empty_list_witness:
  "s3_client example_connection = Some example_client \<and>
   s3_answer empty_bucket_aws ([] @ [ListObjectsV2 example_client SOURCE_BUCKET None]) =
     Inr \<lparr>Name = ''inversolarmx'', Contents = None\<rparr> \<and>
   get_files_from_s3_folder empty_bucket_aws example_connection [] =
     (Inr (PyList []), [] @ [ListObjectsV2 example_client SOURCE_BUCKET None])"
proof -
  have a: "s3_client example_connection = Some example_client"
    by (simp add: example_connection_def)
  have b: "s3_answer empty_bucket_aws ([] @ [ListObjectsV2 example_client SOURCE_BUCKET None]) =
     Inr \<lparr>Name = ''inversolarmx'', Contents = None\<rparr>"
    by (simp add: empty_bucket_aws_def granting_aws_def)
  show ?thesis
    using a b empty_response_gives_empty_list [OF a b] by simp
qed

text \<open>
  C10. The result of \<open>get_files_from_s3_folder\<close> has two types. A response with at least
  one entry gives a pandas frame with one row per entry, keys in the order of the response,
  and never a list; a response without entries and a listing call that raised give the
  empty Python list.
\<close>

theorem listing_returns_frame_or_list:
  assumes "s3_client self = Some c"
  shows
   "(\<forall>response recs. s3_answer w (h @ [ListObjectsV2 c SOURCE_BUCKET None]) = Inr response \<and>
       Contents response = Some recs \<and> recs \<noteq> [] \<longrightarrow>
       (\<exists>df. fst (get_files_from_s3_folder w self h) = Inr (Frame df) \<and>
          map Key (rows df) = map Key recs \<and>
          (\<forall>l. fst (get_files_from_s3_folder w self h) \<noteq> Inr (PyList l)))) \<and>
    (\<forall>response. s3_answer w (h @ [ListObjectsV2 c SOURCE_BUCKET None]) = Inr response \<and>
       (Contents response = None \<or> Contents response = Some []) \<longrightarrow>
       fst (get_files_from_s3_folder w self h) = Inr (PyList [])) \<and>
    (\<forall>e. s3_answer w (h @ [ListObjectsV2 c SOURCE_BUCKET None]) = Inl e \<longrightarrow>
       fst (get_files_from_s3_folder w self h) = Inr (PyList []))"
proof (intro conjI allI impI)
  fix response recs
  assume "s3_answer w (h @ [ListObjectsV2 c SOURCE_BUCKET None]) = Inr response \<and>
       Contents response = Some recs \<and> recs \<noteq> []"
  then have "get_files_try w self h =
    (Inr (Frame \<lparr>columns = [''Key'', ''LastModified'', ''ETag'', ''Size'', ''StorageClass''],
                 rows = map (\<lambda>r. r\<lparr>LastModified :=
                   \<lparr>instant_us = instant_us (LastModified r),
                    tzinfo = Some ''America/Mexico_City''\<rparr>\<rparr>) recs\<rparr>),
     h @ [ListObjectsV2 c SOURCE_BUCKET None])"
    using assms by (simp add: get_files_try_contents)
  then show "\<exists>df. fst (get_files_from_s3_folder w self h) = Inr (Frame df) \<and>
          map Key (rows df) = map Key recs \<and>
          (\<forall>l. fst (get_files_from_s3_folder w self h) \<noteq> Inr (PyList l))"
    by (simp add: get_files_passes comp_def)
next
  fix response
  assume a: "s3_answer w (h @ [ListObjectsV2 c SOURCE_BUCKET None]) = Inr response \<and>
       (Contents response = None \<or> Contents response = Some [])"
  then have "get_files_try w self h = (Inr (PyList []), h @ [ListObjectsV2 c SOURCE_BUCKET None])
    \<or> get_files_try w self h = (Inl (KeyError ''Key''), h @ [ListObjectsV2 c SOURCE_BUCKET None])"
    using assms get_files_try_no_contents [of self c w h response]
      get_files_try_empty_contents [of self c w h response] by blast
  then show "fst (get_files_from_s3_folder w self h) = Inr (PyList [])"
    by (auto simp: get_files_passes get_files_catches)
next
  fix e
  assume "s3_answer w (h @ [ListObjectsV2 c SOURCE_BUCKET None]) = Inl e"
  then show "fst (get_files_from_s3_folder w self h) = Inr (PyList [])"
    using assms by (simp add: get_files_try_raises get_files_catches)
qed

theorem listing_returns_frame_or_list_witness:
  "(\<exists>df. fst (get_files_from_s3_folder granting_aws example_connection []) = Inr (Frame df) \<and>
      map Key (rows df) = [''pricelists/2025-05.xlsx'']) \<and>
   fst (get_files_from_s3_folder empty_bucket_aws example_connection []) = Inr (PyList []) \<and>
   fst (get_files_from_s3_folder unreachable_aws example_connection []) = Inr (PyList [])"
  using
    listing_returns_frame_or_list [OF example_connection_client, of granting_aws "[]"]
    listing_returns_frame_or_list [OF example_connection_client, of empty_bucket_aws "[]"]
    listing_returns_frame_or_list [OF example_connection_client, of unreachable_aws "[]"]
  by (auto simp: granting_answer empty_bucket_answer unreachable_answer example_object_def)

end
